theory Spec2Isabelle
  imports Complex_Main "HOL-Library.Sublist"
begin

section \<open>Recipe feasibility engine of chatbot.py\<close>

text \<open>
  The development embeds the functions of \<^verbatim>\<open>chatbot.py\<close> that normalise quantities and
  names, score one recipe against the pantry, rank the candidates and build the prompt.

  Conventions of the embedding.
  \<^item> A Python \<^verbatim>\<open>str\<close> is a \<^typ>\<open>string\<close>; the model covers ASCII text (lowercasing touches
    \<^verbatim>\<open>A-Z\<close> only, \<^verbatim>\<open>\d\<close> is \<^verbatim>\<open>0-9\<close>, whitespace is the ASCII whitespace of \<^verbatim>\<open>str.isspace\<close>).
  \<^item> A Python \<^verbatim>\<open>float\<close> is a \<^typ>\<open>rat\<close>: arithmetic is exact, binary rounding and overflow
    to infinity are not modelled.
  \<^item> An exception is a value: every function that can raise returns \<open>error + 'a\<close>.
  \<^item> The rows that \<^verbatim>\<open>fetch_recipe_ingredients\<close> reads from the database are a function
    from the recipe id to the list of rows.
\<close>

subsection \<open>Strings\<close>

datatype error = ValueError

definition is_space :: "char \<Rightarrow> bool" where
  "is_space c = (let n = (of_char c :: nat) in (9 \<le> n \<and> n \<le> 13) \<or> (28 \<le> n \<and> n \<le> 32))"

definition is_digit :: "char \<Rightarrow> bool" where
  "is_digit c = (let n = (of_char c :: nat) in 48 \<le> n \<and> n \<le> 57)"

definition digit_val :: "char \<Rightarrow> nat" where
  "digit_val c = (of_char c :: nat) - 48"

definition lower_char :: "char \<Rightarrow> char" where
  "lower_char c = (let n = (of_char c :: nat) in if 65 \<le> n \<and> n \<le> 90 then char_of (n + 32) else c)"

definition lower :: "string \<Rightarrow> string" where
  "lower s = map lower_char s"

definition strip :: "string \<Rightarrow> string" where
  "strip s = rev (dropWhile is_space (rev (dropWhile is_space s)))"

definition endswith :: "string \<Rightarrow> string \<Rightarrow> bool" where
  "endswith s t = suffix t s"

text \<open>\<^verbatim>\<open>s.replace(old, "")\<close>: every non-overlapping occurrence of \<open>old\<close>, found from the
  left, is deleted; an empty \<open>old\<close> leaves the string as it is.\<close>

function replace_del :: "string \<Rightarrow> string \<Rightarrow> string" where
  "replace_del old [] = []"
| "replace_del old (c # cs) =
     (if old \<noteq> [] \<and> prefix old (c # cs)
      then replace_del old (drop (length old) (c # cs))
      else c # replace_del old cs)"
  by pat_completeness auto
termination
  by (relation "measure (\<lambda>(old, s). length s)") (auto simp: neq_Nil_conv)

subsection \<open>Unit conversion and name normalisation\<close>

definition UNIT_MAP :: "(string \<times> rat) list" where
  "UNIT_MAP =
     [(''g'', 1), (''gram'', 1), (''gram.'', 1), (''grams'', 1),
      (''tbsp'', 15), (''tablespoon'', 15), (''tsp'', 5), (''teaspoon'', 5),
      (''cup'', 240), (''cups'', 240), (''ml'', 1),
      (''ltr'', 1000), (''litre'', 1000), (''liter'', 1000), (''number'', 1)]"

text \<open>\<^verbatim>\<open>re.search(r"([\d\.]+)", s)\<close>: the leftmost, longest run of digits and dots.\<close>

definition is_num_char :: "char \<Rightarrow> bool" where
  "is_num_char c = (is_digit c \<or> c = CHR ''.'')"

definition re_search_num :: "string \<Rightarrow> string option" where
  "re_search_num s =
     (let rest = dropWhile (\<lambda>c. \<not> is_num_char c) s
      in if rest = [] then None else Some (takeWhile is_num_char rest))"

definition digits_val :: "string \<Rightarrow> nat" where
  "digits_val ds = foldl (\<lambda>a c. 10 * a + digit_val c) 0 ds"

text \<open>\<^verbatim>\<open>float(t)\<close> on a run of digits and dots: a decimal numeral needs at least one
  digit and at most one dot, anything else raises \<^verbatim>\<open>ValueError\<close>.\<close>

definition py_float :: "string \<Rightarrow> error + rat" where
  "py_float t =
     (if length (filter (\<lambda>c. c = CHR ''.'') t) \<le> 1 \<and> (\<exists>c \<in> set t. is_digit c)
      then let ip = takeWhile (\<lambda>c. c \<noteq> CHR ''.'') t;
               fp = drop 1 (dropWhile (\<lambda>c. c \<noteq> CHR ''.'') t)
           in Inr (of_nat (digits_val ip) + of_nat (digits_val fp) / 10 ^ length fp)
      else Inl ValueError)"

definition extract_amount :: "string \<Rightarrow> error + rat" where
  "extract_amount q = (case re_search_num q of None \<Rightarrow> Inr 1 | Some t \<Rightarrow> py_float t)"

fun apply_units :: "(string \<times> rat) list \<Rightarrow> string \<Rightarrow> rat \<Rightarrow> rat" where
  "apply_units [] q amount = amount"
| "apply_units ((key, factor) # rest) q amount =
     (if sublist key q then amount * factor else apply_units rest q amount)"

definition parse_quantity_str :: "string \<Rightarrow> error + rat" where
  "parse_quantity_str qty_str =
     (let q = strip (lower qty_str)
      in case extract_amount q of
           Inl e \<Rightarrow> Inl e
         | Inr amount \<Rightarrow> Inr (apply_units UNIT_MAP q amount))"

definition descriptors :: "string list" where
  "descriptors = [''boiled'', ''minced'', ''chopped'', ''powder'', ''ground'',
                  ''fresh'', ''dried'', ''sliced'', ''shredded'', ''optional'']"

definition normalize_name :: "string \<Rightarrow> string" where
  "normalize_name name =
     (let n1 = strip (lower name);
          n2 = foldl (\<lambda>n desc. replace_del desc n) n1 descriptors;
          n3 = (if endswith n2 ''s'' then butlast n2 else n2)
      in strip n3)"

subsection \<open>Pantry, recipe rows and the scorer\<close>

text \<open>
  A pantry row is the dictionary \<^verbatim>\<open>{"name", "quantity", "unit"}\<close>. The scorer uses the
  quantity only through \<^verbatim>\<open>f"{ing['quantity']}{ing['unit']}"\<close>, so the field holds the text
  that formatting the stored number gives (\<^verbatim>\<open>6\<close>, \<^verbatim>\<open>500.0\<close>, \<^verbatim>\<open>6.00\<close>).
  A recipe row is \<^verbatim>\<open>{"item", "quantity"}\<close> with a free-text quantity.
\<close>

record pantry_item =
  name :: string
  quantity :: string
  unit :: string

record recipe_ing =
  item :: string
  item_quantity :: string

type_synonym recipe_db = "nat \<Rightarrow> recipe_ing list"

definition fetch_recipe_ingredients :: "recipe_db \<Rightarrow> nat \<Rightarrow> recipe_ing list" where
  "fetch_recipe_ingredients db recipe_id = db recipe_id"

definition VITAL_INGREDIENTS :: "string set" where
  "VITAL_INGREDIENTS =
     {''egg'', ''flour'', ''milk'', ''pasta'', ''ramen noodle'', ''chicken'', ''sugar''}"

definition dict_get :: "(string \<rightharpoonup> rat) \<Rightarrow> string \<Rightarrow> rat \<Rightarrow> rat" where
  "dict_get d k dflt = (case d k of None \<Rightarrow> dflt | Some v \<Rightarrow> v)"

fun build_user_dict :: "pantry_item list \<Rightarrow> (string \<rightharpoonup> rat) \<Rightarrow> error + (string \<rightharpoonup> rat)" where
  "build_user_dict [] user_dict = Inr user_dict"
| "build_user_dict (ing # rest) user_dict =
     (let norm = normalize_name (name ing)
      in case parse_quantity_str (quantity ing @ unit ing) of
           Inl e \<Rightarrow> Inl e
         | Inr user_qty_grams \<Rightarrow>
             build_user_dict rest (user_dict(norm \<mapsto> dict_get user_dict norm 0 + user_qty_grams)))"

text \<open>The loop over the recipe rows leaves either through the \<^verbatim>\<open>return\<close> of the vital
  check or at the end of the rows, with the counter and the missing list.\<close>

datatype loop_exit =
  Early_Return "rat \<times> (string \<times> rat) list"
| Fell_Through nat "(string \<times> rat) list"

fun score_loop ::
  "(string \<rightharpoonup> rat) \<Rightarrow> recipe_ing list \<Rightarrow> nat \<Rightarrow> (string \<times> rat) list \<Rightarrow> error + loop_exit" where
  "score_loop user_dict [] satisfied_count missing_ings =
     Inr (Fell_Through satisfied_count missing_ings)"
| "score_loop user_dict (r_ing # rest) satisfied_count missing_ings =
     (let norm_ing = normalize_name (item r_ing)
      in case parse_quantity_str (item_quantity r_ing) of
           Inl e \<Rightarrow> Inl e
         | Inr needed_grams \<Rightarrow>
             (let user_has = dict_get user_dict norm_ing 0
              in if norm_ing \<in> VITAL_INGREDIENTS \<and> user_has < 1 / 10 ^ 9
                 then Inr (Early_Return (0, [(norm_ing, needed_grams)]))
                 else if user_has \<ge> needed_grams * (8 / 10)
                 then score_loop user_dict rest (satisfied_count + 1) missing_ings
                 else score_loop user_dict rest satisfied_count
                        (missing_ings @ [(norm_ing, max 0 (needed_grams - user_has))])))"

definition coverage :: "nat \<Rightarrow> nat \<Rightarrow> rat" where
  "coverage satisfied_count needed_count =
     (if needed_count > 0 then of_nat satisfied_count / of_nat needed_count else 1)"

definition get_feasibility_score ::
  "recipe_db \<Rightarrow> nat \<Rightarrow> pantry_item list \<Rightarrow> error + rat \<times> (string \<times> rat) list" where
  "get_feasibility_score db recipe_id user_ingredients =
     (let recipe_ings = fetch_recipe_ingredients db recipe_id
      in case build_user_dict user_ingredients Map.empty of
           Inl e \<Rightarrow> Inl e
         | Inr user_dict \<Rightarrow>
             (case score_loop user_dict recipe_ings 0 [] of
                Inl e \<Rightarrow> Inl e
              | Inr (Early_Return res) \<Rightarrow> Inr res
              | Inr (Fell_Through satisfied_count missing_ings) \<Rightarrow>
                  (let score = coverage satisfied_count (length recipe_ings)
                   in if score < 1 / 2 then Inr (0, missing_ings)
                      else Inr (score, missing_ings))))"

subsection \<open>Ranking the candidates\<close>

record recipe =
  recipe_id :: nat
  title :: string
  taste :: string
  cuisine :: string
  prep_time :: int
  description :: string
  instructions :: string

type_synonym scored_recipe = "recipe \<times> rat \<times> (string \<times> rat) list"

text \<open>The loop of \<^verbatim>\<open>chat\<close> that scores every candidate and keeps the ones with a
  positive score, in catalog order; an exception of the scorer leaves the loop.\<close>

fun score_candidates ::
  "recipe_db \<Rightarrow> pantry_item list \<Rightarrow> recipe list \<Rightarrow> scored_recipe list \<Rightarrow> error + scored_recipe list" where
  "score_candidates db user_ingredients [] scored_recipes = Inr scored_recipes"
| "score_candidates db user_ingredients (r # rest) scored_recipes =
     (case get_feasibility_score db (recipe_id r) user_ingredients of
        Inl e \<Rightarrow> Inl e
      | Inr (score, missing_ings) \<Rightarrow>
          if score > 0
          then score_candidates db user_ingredients rest (scored_recipes @ [(r, score, missing_ings)])
          else score_candidates db user_ingredients rest scored_recipes)"

text \<open>\<^verbatim>\<open>scored_recipes.sort(key=lambda x: x[1], reverse=True)\<close>: Python's sort is stable,
  also with \<^verbatim>\<open>reverse=True\<close>; it is the stable insertion sort on the negated key.\<close>

definition sort_by_score_desc :: "scored_recipe list \<Rightarrow> scored_recipe list" where
  "sort_by_score_desc scored_recipes = sort_key (\<lambda>x. - fst (snd x)) scored_recipes"

text \<open>The list \<^verbatim>\<open>top_recipes\<close> of \<^verbatim>\<open>chat\<close>; when it is empty \<^verbatim>\<open>chat\<close> answers with a
  fixed sentence and status 200 instead of calling the model.\<close>

definition chat_top_recipes ::
  "recipe_db \<Rightarrow> pantry_item list \<Rightarrow> recipe list \<Rightarrow> error + scored_recipe list" where
  "chat_top_recipes db user_ingredients candidate_recipes =
     (case score_candidates db user_ingredients candidate_recipes [] of
        Inl e \<Rightarrow> Inl e
      | Inr scored_recipes \<Rightarrow> Inr (take 3 (sort_by_score_desc scored_recipes)))"

subsection \<open>The prompt\<close>














subsection \<open>Predicates and data used to state the properties\<close>

text \<open>The condition of the vital check of the scorer, for one recipe row.\<close>

definition vital_missing :: "(string \<rightharpoonup> rat) \<Rightarrow> recipe_ing \<Rightarrow> bool" where
  "vital_missing user_dict r_ing =
     (normalize_name (item r_ing) \<in> VITAL_INGREDIENTS
      \<and> dict_get user_dict (normalize_name (item r_ing)) 0 < 1 / 10 ^ 9)"

text \<open>The score of a catalog entry, \<open>0\<close> when the scorer raises.\<close>

definition score_of :: "recipe_db \<Rightarrow> pantry_item list \<Rightarrow> recipe \<Rightarrow> rat" where
  "score_of db user_ingredients r =
     (case get_feasibility_score db (recipe_id r) user_ingredients of
        Inl e \<Rightarrow> 0
      | Inr (score, missing_ings) \<Rightarrow> score)"

definition pancakes :: "recipe_ing list" where
  "pancakes = [\<lparr>item = ''egg'', item_quantity = ''2''\<rparr>,
               \<lparr>item = ''flour'', item_quantity = ''300g''\<rparr>,
               \<lparr>item = ''sugar'', item_quantity = ''100g''\<rparr>,
               \<lparr>item = ''milk'', item_quantity = ''200ml''\<rparr>]"

definition scenario_pantry :: "pantry_item list" where
  "scenario_pantry = [\<lparr>name = ''egg'', quantity = ''6'', unit = ''number''\<rparr>,
                      \<lparr>name = ''flour'', quantity = ''500'', unit = ''gram''\<rparr>,
                      \<lparr>name = ''sugar'', quantity = ''50'', unit = ''gram''\<rparr>]"

definition two_vital_db :: recipe_db where
  "two_vital_db = (\<lambda>rid. [\<lparr>item = ''Milk'', item_quantity = ''200ml''\<rparr>,
                           \<lparr>item = ''eggs'', item_quantity = ''2''\<rparr>])"

definition salt_milk_db :: recipe_db where
  "salt_milk_db = (\<lambda>rid. [\<lparr>item = ''Salt'', item_quantity = ''5g''\<rparr>,
                           \<lparr>item = ''Milk'', item_quantity = ''200ml''\<rparr>,
                           \<lparr>item = ''eggs'', item_quantity = ''2''\<rparr>])"

definition spice_db :: recipe_db where
  "spice_db = (\<lambda>rid. [\<lparr>item = ''Salt'', item_quantity = ''5g''\<rparr>,
                       \<lparr>item = ''black pepper'', item_quantity = ''2 tsp''\<rparr>,
                       \<lparr>item = ''olive oil'', item_quantity = ''1 tbsp''\<rparr>])"


text \<open>The entry that \<^verbatim>\<open>chat\<close> appends for a catalog recipe whose score is positive.\<close>

definition scored_entry :: "recipe_db \<Rightarrow> pantry_item list \<Rightarrow> recipe \<Rightarrow> scored_recipe" where
  "scored_entry db user_ingredients r =
     (case get_feasibility_score db (recipe_id r) user_ingredients of
        Inl e \<Rightarrow> (r, 0, [])
      | Inr (score, missing_ings) \<Rightarrow> (r, score, missing_ings))"

definition mk_recipe :: "nat \<Rightarrow> string \<Rightarrow> recipe" where
  "mk_recipe rid t = \<lparr>recipe_id = rid, title = t, taste = ''Savory'', cuisine = ''Bengali'',
                      prep_time = 20, description = ''A quick dish'',
                      instructions = ''Mix and cook''\<rparr>"

definition demo_db :: recipe_db where
  "demo_db rid =
     (if rid = 1 then [\<lparr>item = ''Salt'', item_quantity = ''5g''\<rparr>,
                       \<lparr>item = ''pepper'', item_quantity = ''2g''\<rparr>]
      else if rid = 2 then [\<lparr>item = ''Rice'', item_quantity = ''50g''\<rparr>]
      else if rid = 3 then [\<lparr>item = ''Milk'', item_quantity = ''200ml''\<rparr>]
      else if rid = 4 then [\<lparr>item = ''rice'', item_quantity = ''80g''\<rparr>,
                            \<lparr>item = ''pepper'', item_quantity = ''1g''\<rparr>]
      else if rid = 5 then [\<lparr>item = ''salt'', item_quantity = ''1 tsp''\<rparr>]
      else [\<lparr>item = ''rice'', item_quantity = ''200g''\<rparr>,
            \<lparr>item = ''cumin'', item_quantity = ''1g''\<rparr>])"

definition demo_pantry :: "pantry_item list" where
  "demo_pantry = [\<lparr>name = ''Salt'', quantity = ''10.00'', unit = ''gram''\<rparr>,
                  \<lparr>name = ''Rice'', quantity = ''100.00'', unit = ''gram''\<rparr>]"

definition demo_catalog :: "recipe list" where
  "demo_catalog = [mk_recipe 1 ''A'', mk_recipe 2 ''B'', mk_recipe 3 ''C'',
                   mk_recipe 4 ''D'', mk_recipe 5 ''E'', mk_recipe 6 ''F'']"

definition demo_top :: "scored_recipe list" where
  "demo_top = [(mk_recipe 2 ''B'', 1, []), (mk_recipe 5 ''E'', 1, []),
               (mk_recipe 1 ''A'', 1 / 2, [(''pepper'', 2)])]"

definition spice_missing :: "(string \<times> rat) list" where
  "spice_missing = [(''salt'', 5), (''black pepper'', 10), (''olive oil'', 15)]"

section \<open>Properties\<close>

subsection \<open>Quantities and names\<close>






lemma py_float_nonneg: "py_float t = Inr r \<Longrightarrow> 0 \<le> r"
  by (auto simp: py_float_def Let_def split: if_splits)

lemma apply_units_nonneg:
  "\<forall>(k, f) \<in> set us. 0 \<le> f \<Longrightarrow> 0 \<le> a \<Longrightarrow> 0 \<le> apply_units us q a"
  by (induction us q a rule: apply_units.induct) auto

text \<open>Whatever \<open>parse_quantity_str\<close> returns is non-negative.\<close>

lemma parse_quantity_str_nonneg: "parse_quantity_str s = Inr r \<Longrightarrow> 0 \<le> r"
  unfolding parse_quantity_str_def Let_def extract_amount_def
  by (auto split: sum.splits option.splits intro!: apply_units_nonneg
      dest: py_float_nonneg simp: UNIT_MAP_def)

text \<open>A string without digit and dot gets the amount \<open>1\<close>.\<close>

lemma extract_amount_default:
  "\<forall>c \<in> set q. \<not> is_num_char c \<Longrightarrow> extract_amount q = Inr 1"
  by (simp add: extract_amount_def re_search_num_def)

text \<open>
  C6. \<open>parse_quantity_str\<close> is claimed never to fail. The regular expression also matches
  a run of dots, which \<open>float\<close> refuses: on \<^verbatim>\<open>"to taste."\<close> the function raises
  \<^verbatim>\<open>ValueError\<close> instead of falling back to \<open>1.0\<close>.
\<close>

theorem parse_quantity_str_lone_dot_raises:
  "parse_quantity_str ''to taste.'' = Inl ValueError"
  by code_simp

text \<open>
  C7 as stated: \<open>normalize_name\<close> maps \<^verbatim>\<open>"Fresh Tomatoes"\<close> to \<^verbatim>\<open>"tomato"\<close>. It does not:
  only one trailing \<open>s\<close> is removed.
\<close>

theorem normalize_name_tomatoes_not_tomato:
  "normalize_name ''Fresh Tomatoes'' \<noteq> ''tomato''"
  by code_simp

text \<open>
  C7, amended. \<^verbatim>\<open>"boiled eggs"\<close> and \<^verbatim>\<open>"egg"\<close> both normalise to \<^verbatim>\<open>"egg"\<close>, and
  \<^verbatim>\<open>"Fresh Tomatoes"\<close> normalises to \<^verbatim>\<open>"tomatoe"\<close>.
\<close>

theorem normalize_name_examples:
  "normalize_name ''boiled eggs'' = normalize_name ''egg''
   \<and> normalize_name ''egg'' = ''egg''
   \<and> normalize_name ''Fresh Tomatoes'' = ''tomatoe''"
  by code_simp



subsection \<open>The scorer\<close>

lemma score_loop_step:
  assumes "parse_quantity_str (item_quantity x) = Inr g"
  shows "score_loop ud (x # xs) sat miss =
           (if vital_missing ud x then Inr (Early_Return (0, [(normalize_name (item x), g)]))
            else if dict_get ud (normalize_name (item x)) 0 \<ge> g * (8 / 10)
            then score_loop ud xs (sat + 1) miss
            else score_loop ud xs sat
                   (miss @ [(normalize_name (item x),
                             max 0 (g - dict_get ud (normalize_name (item x)) 0))]))"
  unfolding vital_missing_def using assms by (simp add: Let_def)

lemma score_loop_first_vital:
  assumes "List.find (vital_missing ud) rs = Some r"
    and "\<forall>x \<in> set (takeWhile (\<lambda>x. \<not> vital_missing ud x) rs).
           parse_quantity_str (item_quantity x) \<noteq> Inl ValueError"
    and "parse_quantity_str (item_quantity r) = Inr needed"
  shows "score_loop ud rs sat miss = Inr (Early_Return (0, [(normalize_name (item r), needed)]))"
  using assms
proof (induction rs arbitrary: sat miss)
  case Nil
  then show ?case by simp
next
  case (Cons x xs)
  show ?case
  proof (cases "vital_missing ud x")
    case True
    with Cons.prems have "x = r" by simp
    with True Cons.prems(3) show ?thesis
      by (simp add: score_loop_step del: score_loop.simps)
  next
    case False
    with Cons.prems obtain g where g: "parse_quantity_str (item_quantity x) = Inr g"
      by (cases "parse_quantity_str (item_quantity x)") (auto intro: error.exhaust)
    from False Cons.prems have f: "List.find (vital_missing ud) xs = Some r"
      and p: "\<forall>x \<in> set (takeWhile (\<lambda>x. \<not> vital_missing ud x) xs).
           parse_quantity_str (item_quantity x) \<noteq> Inl ValueError"
      by simp_all
    from False g Cons.IH [OF f p Cons.prems(3)] show ?thesis
      by (simp add: score_loop_step del: score_loop.simps)
  qed
qed

lemma score_loop_count:
  "score_loop ud rs sat miss = Inr (Fell_Through sat' miss') \<Longrightarrow> sat' \<le> sat + length rs"
proof (induction rs arbitrary: sat miss)
  case Nil
  then show ?case by simp
next
  case (Cons r rs)
  then show ?case
    by (fastforce simp: Let_def split: sum.splits if_splits)
qed

lemma score_loop_early:
  "score_loop ud rs sat miss = Inr (Early_Return res) \<Longrightarrow> fst res = 0 \<and> length (snd res) = 1"
proof (induction rs arbitrary: sat miss)
  case Nil
  then show ?case by simp
next
  case (Cons r rs)
  then show ?case
    by (fastforce simp: Let_def split: sum.splits if_splits)
qed

lemma coverage_le_1: "s \<le> n \<Longrightarrow> coverage s n \<le> 1"
  by (simp add: coverage_def)

text \<open>
  C1 as stated: whenever some row of the recipe is vital and missing from the pantry map,
  the scorer returns \<open>0.0\<close> with the one-entry list of that row. It fails for a row that
  comes after another vital and missing row: with milk and eggs both missing, the list
  names the milk, not the eggs.
\<close>

theorem vital_short_circuit_not_every:
  "\<lparr>item = ''eggs'', item_quantity = ''2''\<rparr> \<in> set (two_vital_db 1)
   \<and> normalize_name ''eggs'' \<in> VITAL_INGREDIENTS
   \<and> build_user_dict [] Map.empty = Inr Map.empty
   \<and> dict_get Map.empty (normalize_name ''eggs'') 0 < 1 / 10 ^ 9
   \<and> parse_quantity_str ''2'' = Inr 2
   \<and> get_feasibility_score two_vital_db 1 [] = Inr (0, [(''milk'', 200)])
   \<and> get_feasibility_score two_vital_db 1 [] \<noteq> Inr (0, [(normalize_name ''eggs'', 2)])"
  by (simp add: dict_get_def) code_simp

text \<open>
  C1, amended. If the pantry map is built, \<open>r_ing\<close> is the first row of the recipe that is
  vital and missing, and the quantities of the rows up to and including it are read
  without an exception, then the scorer returns \<open>0.0\<close> and the one-entry list with the
  canonical name and the required grams of \<open>r_ing\<close>, whatever the other rows and the rest
  of the pantry are; no shortfall of an earlier row is in the list.
\<close>

theorem vital_short_circuit_first:
  assumes "build_user_dict user_ingredients Map.empty = Inr user_dict"
    and "List.find (vital_missing user_dict) (db rid) = Some r_ing"
    and "\<forall>x \<in> set (takeWhile (\<lambda>x. \<not> vital_missing user_dict x) (db rid)).
           parse_quantity_str (item_quantity x) \<noteq> Inl ValueError"
    and "parse_quantity_str (item_quantity r_ing) = Inr needed_grams"
  shows "get_feasibility_score db rid user_ingredients =
           Inr (0, [(normalize_name (item r_ing), needed_grams)])"
  using assms(1) score_loop_first_vital [OF assms(2-4), of 0 "[]"]
  by (simp add: get_feasibility_score_def fetch_recipe_ingredients_def)

lemma salt_pantry_dict:
  "build_user_dict [\<lparr>name = ''Salt'', quantity = ''10.0'', unit = ''gram''\<rparr>] Map.empty
     = Inr [''salt'' \<mapsto> 10]"
proof -
  have n: "normalize_name ''Salt'' = ''salt''" by code_simp
  have p: "parse_quantity_str ''10.0gram'' = Inr 10" by code_simp
  show ?thesis by (simp add: n p dict_get_def)
qed

theorem vital_short_circuit_first_witness:
  "build_user_dict [\<lparr>name = ''Salt'', quantity = ''10.0'', unit = ''gram''\<rparr>] Map.empty
     = Inr [''salt'' \<mapsto> 10]
   \<and> List.find (vital_missing [''salt'' \<mapsto> 10]) (salt_milk_db 7)
       = Some \<lparr>item = ''Milk'', item_quantity = ''200ml''\<rparr>
   \<and> takeWhile (\<lambda>x. \<not> vital_missing [''salt'' \<mapsto> 10] x) (salt_milk_db 7)
       = [\<lparr>item = ''Salt'', item_quantity = ''5g''\<rparr>]
   \<and> parse_quantity_str ''5g'' = Inr 5
   \<and> parse_quantity_str ''200ml'' = Inr 200
   \<and> get_feasibility_score salt_milk_db 7
         [\<lparr>name = ''Salt'', quantity = ''10.0'', unit = ''gram''\<rparr>]
       = Inr (0, [(''milk'', 200)])"
proof -
  let ?ud = "[''salt'' \<mapsto> (10::rat)]"
  let ?milk = "\<lparr>item = ''Milk'', item_quantity = ''200ml''\<rparr>"
  have n1: "normalize_name ''Salt'' = ''salt''" and n2: "normalize_name ''Milk'' = ''milk''"
    by code_simp+
  have vs: "\<not> vital_missing ?ud \<lparr>item = ''Salt'', item_quantity = ''5g''\<rparr>"
    by (simp add: vital_missing_def n1 dict_get_def)
  have vm: "vital_missing ?ud ?milk"
    by (simp add: vital_missing_def n2 dict_get_def VITAL_INGREDIENTS_def)
  have f: "List.find (vital_missing ?ud) (salt_milk_db 7) = Some ?milk"
    by (simp add: salt_milk_db_def vs vm)
  have t: "takeWhile (\<lambda>x. \<not> vital_missing ?ud x) (salt_milk_db 7)
             = [\<lparr>item = ''Salt'', item_quantity = ''5g''\<rparr>]"
    by (simp add: salt_milk_db_def vs vm)
  have p5: "parse_quantity_str ''5g'' = Inr 5" and p200: "parse_quantity_str ''200ml'' = Inr 200"
    by code_simp+
  have pm: "parse_quantity_str (item_quantity ?milk) = Inr 200"
    by (simp add: p200)
  have a: "\<forall>x \<in> set (takeWhile (\<lambda>x. \<not> vital_missing ?ud x) (salt_milk_db 7)).
           parse_quantity_str (item_quantity x) \<noteq> Inl ValueError"
    by (simp add: t p5)
  have "get_feasibility_score salt_milk_db 7
          [\<lparr>name = ''Salt'', quantity = ''10.0'', unit = ''gram''\<rparr>]
       = Inr (0, [(''milk'', 200)])"
    using vital_short_circuit_first
            [where db = salt_milk_db and rid = 7, OF salt_pantry_dict f a pm]
    by (simp add: n2)
  with salt_pantry_dict f t p5 p200 show ?thesis by blast
qed



text \<open>
  C5. With the pantry of six eggs, 500 gram of flour and 50 gram of sugar, the recipe with
  the rows egg \<^verbatim>\<open>"2"\<close>, flour \<^verbatim>\<open>"300g"\<close>, sugar \<^verbatim>\<open>"100g"\<close>, milk \<^verbatim>\<open>"200ml"\<close> gets the score \<open>0.0\<close>
  and the missing list \<^verbatim>\<open>[("milk", 200.0)]\<close>, under any recipe id.
\<close>

theorem pancakes_scenario:
  "get_feasibility_score (db(rid := pancakes)) rid scenario_pantry = Inr (0, [(''milk'', 200)])"
  by code_simp

text \<open>
  C2. A score that the scorer returns is \<open>0\<close> or lies in the closed interval from \<open>1/2\<close> to
  \<open>1\<close>; and when the loop ends with a coverage below \<open>1/2\<close>, the scorer returns \<open>0\<close> together
  with the missing list that the loop has accumulated.
\<close>

theorem score_zero_or_eligible:
  "(get_feasibility_score db rid user_ingredients = Inr (score, missing)
      \<longrightarrow> score = 0 \<or> (1 / 2 \<le> score \<and> score \<le> 1))
   \<and> (build_user_dict user_ingredients Map.empty = Inr user_dict
        \<and> score_loop user_dict (db rid) 0 [] = Inr (Fell_Through satisfied_count missing_ings)
        \<and> coverage satisfied_count (length (db rid)) < 1 / 2
      \<longrightarrow> get_feasibility_score db rid user_ingredients = Inr (0, missing_ings))"
proof (intro conjI impI)
  assume r: "get_feasibility_score db rid user_ingredients = Inr (score, missing)"
  then obtain ud where ud: "build_user_dict user_ingredients Map.empty = Inr ud"
    by (auto simp: get_feasibility_score_def Let_def split: sum.splits)
  from r ud obtain ex where ex: "score_loop ud (db rid) 0 [] = Inr ex"
    by (auto simp: get_feasibility_score_def fetch_recipe_ingredients_def Let_def
        split: sum.splits)
  show "score = 0 \<or> (1 / 2 \<le> score \<and> score \<le> 1)"
  proof (cases ex)
    case (Early_Return res)
    with r ud ex score_loop_early [of ud "db rid" 0 "[]" res] show ?thesis
      by (auto simp: get_feasibility_score_def fetch_recipe_ingredients_def)
  next
    case (Fell_Through s m)
    with ex score_loop_count [of ud "db rid" 0 "[]" s m]
    have "coverage s (length (db rid)) \<le> 1"
      by (simp add: coverage_le_1)
    with r ud ex Fell_Through show ?thesis
      by (auto simp: get_feasibility_score_def fetch_recipe_ingredients_def Let_def
          split: if_splits)
  qed
next
  assume "build_user_dict user_ingredients Map.empty = Inr user_dict
        \<and> score_loop user_dict (db rid) 0 [] = Inr (Fell_Through satisfied_count missing_ings)
        \<and> coverage satisfied_count (length (db rid)) < 1 / 2"
  then show "get_feasibility_score db rid user_ingredients = Inr (0, missing_ings)"
    by (simp add: get_feasibility_score_def fetch_recipe_ingredients_def)
qed

theorem score_zero_or_eligible_witness:
  "get_feasibility_score demo_db 1 demo_pantry = Inr (1 / 2, [(''pepper'', 2)])
   \<and> (1 / 2 = (0::rat) \<or> ((1::rat) / 2 \<le> 1 / 2 \<and> (1::rat) / 2 \<le> 1))
   \<and> build_user_dict [] Map.empty = Inr Map.empty
   \<and> score_loop Map.empty (spice_db 1) 0 [] = Inr (Fell_Through 0 spice_missing)
   \<and> coverage 0 (length (spice_db 1)) < 1 / 2
   \<and> get_feasibility_score spice_db 1 [] = Inr (0, spice_missing)"
proof -
  have a: "get_feasibility_score demo_db 1 demo_pantry = Inr (1 / 2, [(''pepper'', 2)])"
    by code_simp
  have b: "build_user_dict [] Map.empty = Inr Map.empty" by simp
  have n: "normalize_name ''Salt'' = ''salt''" "normalize_name ''black pepper'' = ''black pepper''"
    "normalize_name ''olive oil'' = ''olive oil''"
    by code_simp+
  have q: "parse_quantity_str ''5g'' = Inr 5" "parse_quantity_str ''2 tsp'' = Inr 10"
    "parse_quantity_str ''1 tbsp'' = Inr 15"
    by code_simp+
  have c: "score_loop Map.empty (spice_db 1) 0 [] = Inr (Fell_Through 0 spice_missing)"
    by (simp add: spice_db_def spice_missing_def n q dict_get_def VITAL_INGREDIENTS_def)
  have d: "coverage 0 (length (spice_db 1)) < 1 / 2"
    by (simp add: coverage_def spice_db_def)
  from score_zero_or_eligible [of demo_db 1 demo_pantry "1 / 2" "[(''pepper'', 2)]"] a
  have e: "1 / 2 = (0::rat) \<or> ((1::rat) / 2 \<le> 1 / 2 \<and> (1::rat) / 2 \<le> 1)"
    by blast
  from score_zero_or_eligible [of spice_db 1 "[]" _ _ Map.empty 0 spice_missing] b c d
  have f: "get_feasibility_score spice_db 1 [] = Inr (0, spice_missing)"
    by blast
  from a e b c d f show ?thesis by blast
qed



subsection \<open>Ranking\<close>

lemma score_scored_entry: "fst (snd (scored_entry db ui r)) = score_of db ui r"
  by (simp add: scored_entry_def score_of_def split: sum.splits prod.splits)

lemma fst_scored_entry: "fst (scored_entry db ui r) = r"
  by (simp add: scored_entry_def split: sum.splits prod.splits)

lemma score_candidates_step:
  assumes "get_feasibility_score db (recipe_id c) ui = Inr (s, m)"
  shows "score_candidates db ui (c # cs) acc =
           (if score_of db ui c > 0 then score_candidates db ui cs (acc @ [scored_entry db ui c])
            else score_candidates db ui cs acc)"
  using assms by (simp add: score_of_def scored_entry_def)

lemma score_candidates_raises:
  assumes "get_feasibility_score db (recipe_id c) ui = Inl e"
  shows "score_candidates db ui (c # cs) acc = Inl e"
  using assms by simp

lemma score_candidates_kept:
  "score_candidates db ui cs acc = Inr res \<Longrightarrow>
     res = acc @ map (scored_entry db ui) (filter (\<lambda>r. score_of db ui r > 0) cs)"
proof (induction cs arbitrary: acc)
  case Nil
  then show ?case by simp
next
  case (Cons c cs)
  show ?case
  proof (cases "get_feasibility_score db (recipe_id c) ui")
    case (Inl e)
    with Cons.prems show ?thesis
      by (simp add: score_candidates_raises del: score_candidates.simps)
  next
    case (Inr sm)
    then have g: "get_feasibility_score db (recipe_id c) ui = Inr (fst sm, snd sm)" by simp
    show ?thesis
    proof (cases "score_of db ui c > 0")
      case True
      with Cons.prems have "score_candidates db ui cs (acc @ [scored_entry db ui c]) = Inr res"
        by (simp add: score_candidates_step [OF g] del: score_candidates.simps)
      from Cons.IH [OF this] True show ?thesis by simp
    next
      case False
      with Cons.prems have "score_candidates db ui cs acc = Inr res"
        by (simp add: score_candidates_step [OF g] del: score_candidates.simps)
      from Cons.IH [OF this] False show ?thesis by simp
    qed
  qed
qed

lemma score_candidates_ok:
  "score_candidates db ui cs acc = Inr res \<Longrightarrow> r \<in> set cs \<Longrightarrow>
     get_feasibility_score db (recipe_id r) ui = Inr (snd (scored_entry db ui r))"
proof (induction cs arbitrary: acc)
  case Nil
  then show ?case by simp
next
  case (Cons c cs)
  show ?case
  proof (cases "get_feasibility_score db (recipe_id c) ui")
    case (Inl e)
    with Cons.prems show ?thesis
      by (simp add: score_candidates_raises del: score_candidates.simps)
  next
    case (Inr sm)
    then have g: "get_feasibility_score db (recipe_id c) ui = Inr (fst sm, snd sm)" by simp
    from Cons.prems(1) obtain acc' where rest: "score_candidates db ui cs acc' = Inr res"
      by (simp add: score_candidates_step [OF g] del: score_candidates.simps split: if_splits)
    show ?thesis
    proof (cases "r = c")
      case True
      with Inr show ?thesis by (simp add: scored_entry_def split: prod.splits)
    next
      case False
      with Cons.prems(2) have "r \<in> set cs" by simp
      from Cons.IH [OF rest this] show ?thesis .
    qed
  qed
qed

lemma sorted_desc_sort: "sorted_wrt (\<lambda>a b. fst (snd a) \<ge> fst (snd b)) (sort_by_score_desc xs)"
proof -
  have "sorted (map (\<lambda>x. - fst (snd x)) (sort_by_score_desc xs))"
    unfolding sort_by_score_desc_def by (rule sorted_sort_key)
  then show ?thesis by (simp add: sorted_map)
qed

lemma sort_desc_stable:
  "filter (\<lambda>e. fst (snd e) = k) (sort_by_score_desc xs) = filter (\<lambda>e. fst (snd e) = k) xs"
proof -
  have "filter (\<lambda>e. - fst (snd e) = - k) (sort_by_score_desc xs)
          = filter (\<lambda>e. - fst (snd e) = - k) xs"
    unfolding sort_by_score_desc_def by (rule sort_key_stable)
  then show ?thesis by simp
qed

lemma set_sort_desc: "set (sort_by_score_desc xs) = set xs"
  by (simp add: sort_by_score_desc_def)

lemma filter_kept:
  "filter (\<lambda>e. fst (snd e) = k)
     (map (scored_entry db ui) (filter (\<lambda>r. score_of db ui r > 0) cs))
     = map (scored_entry db ui) (filter (\<lambda>r. score_of db ui r = k \<and> k > 0) cs)"
  by (induction cs) (auto simp: score_scored_entry)

text \<open>
  C4. When \<^verbatim>\<open>chat\<close> gets to its list \<^verbatim>\<open>top_recipes\<close>, the list has at most three entries;
  every entry is a catalog recipe with the result the scorer gives for it, and its score
  is not \<open>0\<close>; the scores do not increase along the list; for every score \<open>k\<close> the recipes
  listed with score \<open>k\<close> are, in this order, the first ones of the catalog that have score
  \<open>k\<close>; and the list is empty when every catalog recipe scores \<open>0\<close>.
\<close>

theorem ranked_output:
  assumes "chat_top_recipes db user_ingredients candidate_recipes = Inr out"
  shows "length out \<le> 3
     \<and> (\<forall>e \<in> set out. fst (snd e) \<noteq> 0
            \<and> fst e \<in> set candidate_recipes
            \<and> get_feasibility_score db (recipe_id (fst e)) user_ingredients = Inr (snd e))
     \<and> sorted_wrt (\<lambda>a b. fst (snd a) \<ge> fst (snd b)) out
     \<and> (\<forall>k. prefix (map fst (filter (\<lambda>e. fst (snd e) = k) out))
                     (filter (\<lambda>r. score_of db user_ingredients r = k) candidate_recipes))
     \<and> ((\<forall>r \<in> set candidate_recipes. score_of db user_ingredients r = 0) \<longrightarrow> out = [])"
proof -
  let ?kept = "map (scored_entry db user_ingredients)
                 (filter (\<lambda>r. score_of db user_ingredients r > 0) candidate_recipes)"
  from assms obtain scored where
    sc: "score_candidates db user_ingredients candidate_recipes [] = Inr scored"
    and out: "out = take 3 (sort_by_score_desc scored)"
    by (auto simp: chat_top_recipes_def split: sum.splits)
  from score_candidates_kept [OF sc] have kept: "scored = ?kept" by simp
  have len: "length out \<le> 3" by (simp add: out)
  have sub: "set out \<subseteq> set ?kept"
    using set_take_subset [of 3 "sort_by_score_desc scored"] by (simp add: out set_sort_desc kept)
  have ent: "\<forall>e \<in> set out. fst (snd e) \<noteq> 0
            \<and> fst e \<in> set candidate_recipes
            \<and> get_feasibility_score db (recipe_id (fst e)) user_ingredients = Inr (snd e)"
  proof
    fix e assume "e \<in> set out"
    with sub obtain r where r: "r \<in> set candidate_recipes" "score_of db user_ingredients r > 0"
      and e: "e = scored_entry db user_ingredients r" by auto
    from score_candidates_ok [OF sc r(1)] r e
    show "fst (snd e) \<noteq> 0 \<and> fst e \<in> set candidate_recipes
            \<and> get_feasibility_score db (recipe_id (fst e)) user_ingredients = Inr (snd e)"
      by (simp add: score_scored_entry fst_scored_entry)
  qed
  have srt: "sorted_wrt (\<lambda>a b. fst (snd a) \<ge> fst (snd b)) out"
    unfolding out by (rule sorted_wrt_take) (rule sorted_desc_sort)
  have stab: "\<forall>k. prefix (map fst (filter (\<lambda>e. fst (snd e) = k) out))
                     (filter (\<lambda>r. score_of db user_ingredients r = k) candidate_recipes)"
  proof
    fix k
    have "prefix (filter (\<lambda>e. fst (snd e) = k) out)
                 (filter (\<lambda>e. fst (snd e) = k) (sort_by_score_desc scored))"
      unfolding out by (rule filter_mono_prefix) (rule take_is_prefix)
    then have "prefix (filter (\<lambda>e. fst (snd e) = k) out)
                 (map (scored_entry db user_ingredients)
                    (filter (\<lambda>r. score_of db user_ingredients r = k \<and> k > 0) candidate_recipes))"
      by (simp add: sort_desc_stable kept filter_kept)
    then have "prefix (map fst (filter (\<lambda>e. fst (snd e) = k) out))
                 (map fst (map (scored_entry db user_ingredients)
                    (filter (\<lambda>r. score_of db user_ingredients r = k \<and> k > 0) candidate_recipes)))"
      by (rule map_mono_prefix)
    then have p: "prefix (map fst (filter (\<lambda>e. fst (snd e) = k) out))
                    (filter (\<lambda>r. score_of db user_ingredients r = k \<and> k > 0) candidate_recipes)"
      by (simp add: fst_scored_entry comp_def)
    show "prefix (map fst (filter (\<lambda>e. fst (snd e) = k) out))
                     (filter (\<lambda>r. score_of db user_ingredients r = k) candidate_recipes)"
    proof (cases "k > 0")
      case True
      with p show ?thesis by simp
    next
      case False
      with p show ?thesis by simp
    qed
  qed
  have emp: "(\<forall>r \<in> set candidate_recipes. score_of db user_ingredients r = 0) \<longrightarrow> out = []"
  proof
    assume "\<forall>r \<in> set candidate_recipes. score_of db user_ingredients r = 0"
    then have "?kept = []" by (simp add: filter_empty_conv)
    with kept show "out = []" by (simp add: out sort_by_score_desc_def)
  qed
  from len ent srt stab emp show ?thesis by blast
qed

theorem ranked_output_witness:
  "chat_top_recipes demo_db demo_pantry demo_catalog = Inr demo_top
   \<and> map (score_of demo_db demo_pantry) demo_catalog = [1 / 2, 1, 0, 1 / 2, 1, 0]
   \<and> length demo_top \<le> 3
   \<and> sorted_wrt (\<lambda>a b. fst (snd a) \<ge> fst (snd b)) demo_top
   \<and> prefix (map fst (filter (\<lambda>e. fst (snd e) = 1) demo_top))
         (filter (\<lambda>r. score_of demo_db demo_pantry r = 1) demo_catalog)
   \<and> prefix (map fst (filter (\<lambda>e. fst (snd e) = 1 / 2) demo_top))
         (filter (\<lambda>r. score_of demo_db demo_pantry r = 1 / 2) demo_catalog)"
proof -
  have ev: "chat_top_recipes demo_db demo_pantry demo_catalog = Inr demo_top"
    by code_simp
  have sc: "map (score_of demo_db demo_pantry) demo_catalog = [1 / 2, 1, 0, 1 / 2, 1, 0]"
    by code_simp
  from ranked_output [OF ev] ev sc show ?thesis by blast
qed

subsection \<open>The prompt\<close>








end
